theory Spec2Isabelle
  imports Complex_Main "HOL-Library.Sublist"
begin

section \<open>Python text\<close>

text \<open>
  A Python \<open>str\<close> is a sequence of Unicode code points, so a text is a list of
  naturals. \<open>S\<close> embeds an ASCII literal; the em dash of the message templates is
  the code point 8212.
\<close>

type_synonym str = "nat list"

primrec S :: "string \<Rightarrow> str" where
  "S [] = []"
| "S (c # cs) = of_char c # S cs"

text \<open>
  \<open>str.isspace\<close> on one code point, which is also what \<open>\s\<close> matches in a
  \<open>str\<close> pattern of \<open>re\<close>: U+0009..U+000D, U+001C..U+0020, U+0085, U+00A0,
  U+1680, U+2000..U+200A, U+2028, U+2029, U+202F, U+205F, U+3000.
\<close>

definition is_space :: "nat \<Rightarrow> bool" where
  "is_space c \<longleftrightarrow>
     (9 \<le> c \<and> c \<le> 13) \<or> (28 \<le> c \<and> c \<le> 32) \<or> c = 133 \<or> c = 160 \<or> c = 5760 \<or>
     (8192 \<le> c \<and> c \<le> 8202) \<or> c = 8232 \<or> c = 8233 \<or> c = 8239 \<or> c = 8287 \<or>
     c = 12288"

definition lstrip :: "str \<Rightarrow> str" where
  "lstrip s = dropWhile is_space s"

definition rstrip :: "str \<Rightarrow> str" where
  "rstrip s = rev (dropWhile is_space (rev s))"

text \<open>\<open>s.strip()\<close>\<close>

definition strip :: "str \<Rightarrow> str" where
  "strip s = lstrip (rstrip s)"

text \<open>
  \<open>s.upper()\<close>. The ASCII letters are mapped here; the upper-case mapping of every
  other code point (one to three code points in Python) is the parameter \<open>um\<close>.
\<close>

definition ascii_upper :: "nat \<Rightarrow> nat" where
  "ascii_upper c = (if 97 \<le> c \<and> c \<le> 122 then c - 32 else c)"

definition upper_char :: "(nat \<Rightarrow> str) \<Rightarrow> nat \<Rightarrow> str" where
  "upper_char um c = (if c < 128 then [ascii_upper c] else um c)"

definition upper :: "(nat \<Rightarrow> str) \<Rightarrow> str \<Rightarrow> str" where
  "upper um s = concat (map (upper_char um) s)"

text \<open>\<open>sep.join(xs)\<close>\<close>

fun join :: "str \<Rightarrow> str list \<Rightarrow> str" where
  "join sep [] = []"
| "join sep [x] = x"
| "join sep (x # y # ys) = x @ sep @ join sep (y # ys)"

text \<open>
  \<open>s.split('\n')\<close>: the pieces between the newlines (code point 10); the
  accumulator holds the piece being read.
\<close>

fun split_acc :: "str \<Rightarrow> str \<Rightarrow> str list" where
  "split_acc acc [] = [acc]"
| "split_acc acc (c # cs) =
     (if c = 10 then acc # split_acc [] cs else split_acc (acc @ [c]) cs)"

definition split_nl :: "str \<Rightarrow> str list" where
  "split_nl s = split_acc [] s"

text \<open>\<open>sub in s\<close>\<close>

fun contains :: "str \<Rightarrow> str \<Rightarrow> bool" where
  "contains [] sub = (sub = [])"
| "contains (c # cs) sub = (prefix sub (c # cs) \<or> contains cs sub)"

text \<open>
  \<open>clean_string\<close> of \<open>utils/utils.py\<close>:
  \<open>re.sub(r'\s+', ' ', s).strip()\<close>. \<open>collapse_ws\<close> is the substitution: every
  maximal run of white space becomes one space.
\<close>

function collapse_ws :: "str \<Rightarrow> str" where
  "collapse_ws [] = []"
| "collapse_ws (c # cs) =
     (if is_space c then 32 # collapse_ws (dropWhile is_space cs) else c # collapse_ws cs)"
  by pat_completeness auto
termination
  by (relation "measure length") (auto simp: length_dropWhile_le less_Suc_eq_le)

definition clean_string :: "str \<Rightarrow> str" where
  "clean_string s = strip (collapse_ws s)"

section \<open>The orchestrator's formatting\<close>

text \<open>
  \<open>AlexupportAgent.format_final_answer\<close>: a triple-quoted f-string written inside
  the method, so each of its lines carries the eight blanks of the method's indentation
  and the text opens with a line break.
\<close>

definition indent :: str where
  "indent = S ''        ''"

definition format_final_answer :: "str \<Rightarrow> str list \<Rightarrow> str" where
  "format_final_answer answer follow_ups =
     [10] @ indent @ answer @ [10] @
     indent @ S ''Here are some follow-up questions you might consider:'' @ [10] @
     indent @ join (S ''; '') follow_ups @ [10] @
     indent"

section \<open>Exceptions, messages and the outside world\<close>

text \<open>
  Every \<open>raise\<close> is a value: a result is \<open>exn + 'a\<close>, \<open>Inl\<close> the exception.
  \<open>ExternalError\<close> stands for any exception (a subclass of \<open>Exception\<close>) raised by
  a library call: the model, the index, the file system. \<open>exn_str\<close> is \<open>str(e)\<close>,
  what an f-string prints for \<open>{e}\<close>.
\<close>

datatype exn =
    ValueError str
  | RuntimeError str
  | UnboundLocalError str
  | ExternalError str

fun exn_str :: "exn \<Rightarrow> str" where
  "exn_str (ValueError m) = m"
| "exn_str (RuntimeError m) = m"
| "exn_str (UnboundLocalError m) = m"
| "exn_str (ExternalError m) = m"

type_synonym 'a result = "exn + 'a"

text \<open>The langchain message classes; \<open>msg_type\<close> is the attribute \<open>type\<close>.\<close>

datatype message = SystemMessage str | HumanMessage str | AIMessage str

fun msg_type :: "message \<Rightarrow> str" where
  "msg_type (SystemMessage c) = S ''system''"
| "msg_type (HumanMessage c) = S ''human''"
| "msg_type (AIMessage c) = S ''ai''"

fun content :: "message \<Rightarrow> str" where
  "content (SystemMessage c) = c"
| "content (HumanMessage c) = c"
| "content (AIMessage c) = c"

text \<open>
  A payload of the index, typed as the index contract has it: a field is \<open>None\<close>
  when its key is absent. A scored point is a match of a similarity search; its score is
  a finite float, embedded in the reals (the comparison with 0.5 is exact). A record is a
  point of a scroll page, whose payload may be missing altogether.
\<close>

record payload =
  asin :: "str option"
  productTitle :: "str option"
  answers :: "str list option"
  review_snippets :: "str list option"

record scored_point =
  score :: real
  point_payload :: payload

type_synonym record_point = "payload option"

text \<open>
  The two shapes of a scroll response: an object with \<open>points\<close> and (possibly)
  \<open>next_page_offset\<close>, or a tuple whose first component is the points and whose
  second, when there is one, is the next offset.
\<close>

datatype scroll_response =
    ScrollResult "record_point list" "nat option"
  | Tuple1 "record_point list"
  | Tuple2 "record_point list" "nat option"

datatype embedding = Vector "real list" | Vectors "real list list"

text \<open>
  What \<open>assess_relevance\<close> returns: the orchestrator tests that it is a tuple of
  length two before unpacking it.
\<close>

datatype assessed = Verdict bool str | NotAPair

type_synonym evidence = "str list list"

text \<open>
  The collaborators that the code calls and does not define. The language model, the
  embedding model and the log file are indexed by the number of calls made before, so
  that they may answer differently each time. \<open>assess\<close> is
  \<open>IsRelevantAgent.assess_relevance\<close>, whose module is not part of the sources.
  \<open>render\<close> is Python's \<open>str\<close> of a list of lists of strings, as an f-string
  prints it; \<open>um\<close> is the upper-case mapping of the non-ASCII code points. The
  \<open>system_prompt\<close> attributes are fixed texts that no claim inspects.
\<close>

record env =
  um :: "nat \<Rightarrow> str"
  render :: "evidence \<Rightarrow> str"
  count_tokens :: "str \<Rightarrow> nat"
  chat_model :: "nat \<Rightarrow> message list \<Rightarrow> str result"
  embed_query :: "nat \<Rightarrow> str \<Rightarrow> (real list) result"
  embed_documents :: "nat \<Rightarrow> str list \<Rightarrow> (real list list) result"
  log_write :: "nat \<Rightarrow> exn option"
  now :: "nat \<Rightarrow> str"
  query_points :: "embedding \<Rightarrow> str \<Rightarrow> (scored_point list) result"
  scroll :: "nat option \<Rightarrow> scroll_response result"
  assess :: "nat \<Rightarrow> str \<Rightarrow> str \<Rightarrow> evidence \<Rightarrow> assessed result"
  refiner_system_prompt :: str
  answerable_system_prompt :: str
  answer_system_prompt :: str
  followup_system_prompt :: str

text \<open>
  The state that a turn changes: the conversation memory
  (\<open>self.memory.chat_memory.messages\<close>), the token log file, and counters of the
  calls made so far. \<open>answer_calls\<close> and \<open>relevance_calls\<close> count the calls of
  \<open>generate_answer\<close> and \<open>assess_relevance\<close>; \<open>chat_calls\<close> counts the
  invocations of the chat model by the Text Client.
\<close>

record world =
  messages :: "message list"
  chat_calls :: nat
  embed_calls :: nat
  log_attempts :: nat
  token_log :: "str list"
  answer_calls :: nat
  relevance_calls :: nat

section \<open>utils/utils.py and the Text Client\<close>

text \<open>Decimal digits of a natural number, as an f-string prints an \<open>int\<close>.\<close>

function str_nat :: "nat \<Rightarrow> str" where
  "str_nat n = (if n < 10 then [48 + n] else str_nat (n div 10) @ [48 + n mod 10])"
  by pat_completeness auto
termination
  by (relation "measure id") auto

text \<open>
  \<open>log_token_usage\<close>: rejects an unknown operation, then creates the directory,
  opens the file and appends one line. Nothing in it catches a failure of the file
  system, which \<open>log_write\<close> decides.
\<close>

definition log_token_usage :: "env \<Rightarrow> str \<Rightarrow> nat \<Rightarrow> nat \<Rightarrow> world \<Rightarrow> unit result \<times> world" where
  "log_token_usage e operation input_tokens output_tokens w =
     (if operation \<noteq> S ''response_generation'' \<and> operation \<noteq> S ''embeddings_generation''
      then (Inl (ValueError
              (S ''Operation must be either 'response_generation' or 'embeddings_generation'.'')), w)
      else
        (case log_write e (log_attempts w) of
           Some x \<Rightarrow> (Inl x, w\<lparr>log_attempts := Suc (log_attempts w)\<rparr>)
         | None \<Rightarrow>
             (Inr (),
              w\<lparr>log_attempts := Suc (log_attempts w),
                token_log := token_log w @
                  [now e (log_attempts w) @ S '' - '' @ operation @ S '': input='' @
                   str_nat input_tokens @ S '', output='' @ str_nat output_tokens @ [10]]\<rparr>)))"

text \<open>
  \<open>LLMClient.generate_response\<close>: the messages are (role, content) pairs. The
  invocation of the chat model and the write of the token log may each raise, and
  neither is caught here.
\<close>

fun to_langchain :: "str \<times> str \<Rightarrow> message" where
  "to_langchain (role, c) =
     (if role = S ''system'' then SystemMessage c
      else if role = S ''human'' \<or> role = S ''user'' then HumanMessage c
      else if role = S ''assistant'' then AIMessage c
      else HumanMessage c)"

definition generate_response :: "env \<Rightarrow> (str \<times> str) list \<Rightarrow> world \<Rightarrow> str result \<times> world" where
  "generate_response e msgs w =
     (let langchain_messages = map to_langchain msgs;
          total_input_tokens = sum_list (map (\<lambda>m. count_tokens e (snd m)) msgs);
          w1 = w\<lparr>chat_calls := Suc (chat_calls w)\<rparr>
      in case chat_model e (chat_calls w) langchain_messages of
           Inl x \<Rightarrow> (Inl x, w1)
         | Inr response \<Rightarrow>
             (case log_token_usage e (S ''response_generation'') total_input_tokens
                     (count_tokens e response) w1 of
                (Inl x, w2) \<Rightarrow> (Inl x, w2)
              | (Inr u, w2) \<Rightarrow> (Inr response, w2)))"

text \<open>\<open>LLMClient.generate_embeddings\<close>\<close>

definition generate_embeddings :: "env \<Rightarrow> str list \<Rightarrow> world \<Rightarrow> embedding result \<times> world" where
  "generate_embeddings e texts w =
     (let total_input_tokens = sum_list (map (count_tokens e) texts);
          w1 = w\<lparr>embed_calls := Suc (embed_calls w)\<rparr>;
          embedded =
            (if length texts = 1
             then map_sum id Vector (embed_query e (embed_calls w) (hd texts))
             else map_sum id Vectors (embed_documents e (embed_calls w) texts))
      in case embedded of
           Inl x \<Rightarrow> (Inl x, w1)
         | Inr embeddings \<Rightarrow>
             (case log_token_usage e (S ''embeddings_generation'') total_input_tokens 0 w1 of
                (Inl x, w2) \<Rightarrow> (Inl x, w2)
              | (Inr u, w2) \<Rightarrow> (Inr embeddings, w2)))"

section \<open>The micro-agents\<close>

text \<open>\<open>InputRefiner.refine_input\<close>\<close>

definition refine_human_input :: "str \<Rightarrow> str" where
  "refine_human_input user_input = clean_string
     (S ''\<newline>        Refine the following user question to improve clarity and specificity.\<newline>        Focus on making the question more detailed and relevant to product materials and durability.\<newline>\<newline>        User Question: '' @
      user_input @ S ''\<newline>        '')"

definition refine_input :: "env \<Rightarrow> str \<Rightarrow> world \<Rightarrow> str result \<times> world" where
  "refine_input e user_input w =
     (case generate_response e
             [(S ''system'', refiner_system_prompt e),
              (S ''user'', refine_human_input user_input)] w of
        (Inl x, w1) \<Rightarrow> (Inl x, w1)
      | (Inr response, w1) \<Rightarrow> (Inr (strip response), w1))"

text \<open>
  \<open>InformationRetriever.retrieve_information\<close>: any failure of the embedding or of
  the search is raised again as a \<open>RuntimeError\<close>.
\<close>

definition payload_get :: "'a list option \<Rightarrow> 'a list" where
  "payload_get field = (case field of None \<Rightarrow> [] | Some v \<Rightarrow> v)"

definition evidence_item :: "scored_point \<Rightarrow> str list" where
  "evidence_item result =
     payload_get (answers (point_payload result)) @
     payload_get (review_snippets (point_payload result))"

definition retrieval_error :: "exn \<Rightarrow> exn" where
  "retrieval_error x = RuntimeError (S ''Error retrieving information: '' @ exn_str x)"

definition retrieve_information :: "env \<Rightarrow> str \<Rightarrow> str \<Rightarrow> world \<Rightarrow> evidence result \<times> world" where
  "retrieve_information e query product_id w =
     (case generate_embeddings e [query] w of
        (Inl x, w1) \<Rightarrow> (Inl (retrieval_error x), w1)
      | (Inr query_vector, w1) \<Rightarrow>
          (case query_points e query_vector product_id of
             Inl x \<Rightarrow> (Inl (retrieval_error x), w1)
           | Inr search_results \<Rightarrow>
               (Inr (map evidence_item (filter (\<lambda>point. score point \<ge> 1 / 2) search_results)),
                w1)))"

text \<open>
  \<open>InformationRetriever.list_products\<close>. The page loop ends when enough products
  are collected, when a page is empty or when the index gives no next offset; only an
  index that keeps giving pages makes it run on, so it is a partial function.
\<close>

datatype product = Product (product_asin: str) (product_title: str)

definition decode_page :: "scroll_response \<Rightarrow> record_point list \<times> nat option" where
  "decode_page resp =
     (case resp of
        ScrollResult points next_page_offset \<Rightarrow> (points, next_page_offset)
      | Tuple1 points \<Rightarrow> (points, None)
      | Tuple2 points next_page_offset \<Rightarrow> (points, next_page_offset))"

definition empty_payload :: payload where
  "empty_payload = \<lparr>asin = None, productTitle = None, answers = None, review_snippets = None\<rparr>"

definition collect_point :: "record_point \<Rightarrow> product list \<times> str set \<Rightarrow> product list \<times> str set" where
  "collect_point p st =
     (let payload = (case p of None \<Rightarrow> empty_payload | Some pl \<Rightarrow> pl);
          collected = fst st;
          seen = snd st
      in case asin payload of
           None \<Rightarrow> st
         | Some a \<Rightarrow>
             if a \<noteq> [] \<and> a \<notin> seen
             then (collected @
                     [Product a (case productTitle payload of
                                   None \<Rightarrow> S ''(untitled)''
                                 | Some t \<Rightarrow> if t = [] then S ''(untitled)'' else t)],
                   insert a seen)
             else st)"

partial_function (option) list_products_loop ::
  "env \<Rightarrow> int \<Rightarrow> product list \<Rightarrow> nat option \<Rightarrow> str set \<Rightarrow> (product list) result option" where
  "list_products_loop e limit collected page_offset seen =
     (if int (length collected) < limit then
        (case scroll e page_offset of
           Inl x \<Rightarrow> Some (Inl x)
         | Inr resp \<Rightarrow>
             (case decode_page resp of
                (points, next_offset) \<Rightarrow>
                  if points = [] then Some (Inr collected)
                  else
                    (case fold collect_point points (collected, seen) of
                       (collected', seen') \<Rightarrow>
                         if next_offset = None then Some (Inr collected')
                         else list_products_loop e limit collected' next_offset seen')))
      else Some (Inr collected))"

definition list_products :: "env \<Rightarrow> int \<Rightarrow> (product list) result option" where
  "list_products e limit = list_products_loop e limit [] None {}"

text \<open>
  \<open>IsAnswerableAgent.check_answerability\<close>. The prompt is built first; an empty
  evidence list returns before any call of the Text Client. The model's response is
  stripped and upper-cased, and that text is what the prefixes are tested on and what the
  third reason quotes. Every exception of the call is turned into a negative verdict.
\<close>

definition answerable_human_input :: "env \<Rightarrow> str \<Rightarrow> evidence \<Rightarrow> str" where
  \<open>answerable_human_input e user_question retrieved_info = clean_string
     (S ''\<newline>        Based on the following information, determine if the user's question can be answered.\<newline>\<newline>        User Question:\<newline>        '' @
      user_question @
      S ''\<newline>\<newline>        Retrieved Information:\<newline>        '' @
      render e retrieved_info @
      S ''\<newline>\<newline>        Provide a simple "YES" or "NO" response based on the information's relevance and completeness.\<newline>        Do not provide any additional explanations or details other than your "YES" or "NO" answer.\<newline>        '')\<close>

definition no_information :: str where
  "no_information = S ''I don't  have relevant information in my data to answer your question.''"

definition check_answerability :: "env \<Rightarrow> str \<Rightarrow> evidence \<Rightarrow> world \<Rightarrow> (bool \<times> str) \<times> world" where
  "check_answerability e user_question retrieved_info w =
     (let complete_human_input = answerable_human_input e user_question retrieved_info in
      if retrieved_info = [] then ((False, no_information), w)
      else
        (case generate_response e
                [(S ''system'', answerable_system_prompt e),
                 (S ''user'', complete_human_input)] w of
           (Inl x, w1) \<Rightarrow>
             ((False, S ''Error during answerability check: '' @ exn_str x), w1)
         | (Inr r, w1) \<Rightarrow>
             (let response = upper (um e) (strip r) in
              if prefix (S ''YES'') response
              then ((True, S ''The retrieved information is sufficient to answer the question.''), w1)
              else if prefix (S ''NO'') response
              then ((False, no_information), w1)
              else ((False, S ''Unexpected response from LLM: '' @ response), w1))))"

text \<open>
  \<open>AnswerGenerator.generate_answer\<close>. The test \<open>if self.chat_history:\<close> is the
  truth value of the memory object, a \<open>ConversationBufferMemory\<close>: the class defines
  neither \<open>__bool__\<close> nor \<open>__len__\<close>, so the object is true whatever messages it
  holds.
\<close>

definition memory_truth :: "message list \<Rightarrow> bool" where
  "memory_truth chat_history = True"

definition history_prefix :: "env \<Rightarrow> message list \<Rightarrow> str" where
  "history_prefix e chat_history =
     (if memory_truth chat_history
      then S ''Here's the history of the current chat: ['' @
           join (S ''; '')
             (map (\<lambda>message. upper (um e) (msg_type message) @ S '': '' @ content message)
                chat_history) @
           S ''].''
      else [])"

definition answer_human_input :: "env \<Rightarrow> message list \<Rightarrow> str \<Rightarrow> evidence \<Rightarrow> str" where
  "answer_human_input e chat_history user_question context = clean_string
     (S ''\<newline>        '' @ history_prefix e chat_history @
      S ''\<newline>        Based on the following information from real customer experiences and reviews, answer the following question using the available information.\<newline>\<newline>        Question: '' @
      user_question @
      S ''\<newline>\<newline>        Available Information:\<newline>        '' @
      render e context @
      S ''\<newline>\<newline>        Provide a helpful, accurate answer based on this information.\<newline>        '')"

definition generate_answer :: "env \<Rightarrow> str \<Rightarrow> evidence \<Rightarrow> world \<Rightarrow> str result \<times> world" where
  "generate_answer e user_question context w =
     (case generate_response e
             [(S ''system'', answer_system_prompt e),
              (S ''human'', answer_human_input e (messages w) user_question context)]
             (w\<lparr>answer_calls := Suc (answer_calls w)\<rparr>) of
        (Inl x, w1) \<Rightarrow> (Inl x, w1)
      | (Inr a, w1) \<Rightarrow> (Inr (strip a), w1))"

text \<open>\<open>FollowUpGenerator.generate_follow_ups\<close>\<close>

definition followup_human_input :: "env \<Rightarrow> str \<Rightarrow> evidence \<Rightarrow> str" where
  "followup_human_input e user_question context = clean_string
     (S ''\<newline>        Based on the following conversation, generate 2-3 relevant follow-up questions:\<newline>\<newline>        User question: '' @
      user_question @
      S ''\<newline>        Available Information Context:\<newline>        '' @
      render e context @
      S ''\<newline>\<newline>        Generate follow-up questions that would help the user discover more useful information about this product or related concerns.\<newline>        Return the follow-up questions as a simple list, each question on a new line, separated by a newline character.\<newline>        '')"

definition generate_follow_ups :: "env \<Rightarrow> str \<Rightarrow> evidence \<Rightarrow> world \<Rightarrow> (str list) result \<times> world" where
  "generate_follow_ups e user_question context w =
     (case generate_response e
             [(S ''system'', followup_system_prompt e),
              (S ''human'', followup_human_input e user_question context)] w of
        (Inl x, w1) \<Rightarrow> (Inl x, w1)
      | (Inr follow_ups, w1) \<Rightarrow> (Inr (map strip (split_nl follow_ups)), w1))"

text \<open>
  \<open>IsRelevantAgent.assess_relevance\<close>: the call is counted and its outcome is the
  collaborator's.
\<close>

definition assess_relevance :: "env \<Rightarrow> str \<Rightarrow> str \<Rightarrow> evidence \<Rightarrow> world \<Rightarrow> assessed result \<times> world" where
  "assess_relevance e user_question generated_response context w =
     (assess e (relevance_calls w) user_question generated_response context,
      w\<lparr>relevance_calls := Suc (relevance_calls w)\<rparr>)"

section \<open>The orchestrator\<close>

definition unanswerable_msg :: "str \<Rightarrow> str" where
  "unanswerable_msg reason1 =
     S ''Sorry '' @ [8212] @
     S '' I couldn't find information reliable enough to answer that.\<newline>\<newline>Reason: '' @ reason1"

definition exhausted_msg :: "str \<Rightarrow> str" where
  "exhausted_msg reason2 =
     S ''Sorry '' @ [8212] @
     S '' I couldn't find a relevant answer to that.\<newline>\<newline>Reason: '' @ reason2"

definition error_message :: "exn \<Rightarrow> str" where
  "error_message x = S ''An error occurred while processing your request: '' @ exn_str x"

text \<open>
  The three places of \<open>answer\<close> that generate the follow-ups, format the final
  answer, append it to the memory as an assistant message and return it.
\<close>

definition finish :: "env \<Rightarrow> str \<Rightarrow> evidence \<Rightarrow> str \<Rightarrow> world \<Rightarrow> str result \<times> world" where
  "finish e refined_query retrieved_info txt w =
     (case generate_follow_ups e refined_query retrieved_info w of
        (Inl x, w1) \<Rightarrow> (Inl x, w1)
      | (Inr followup_questions, w1) \<Rightarrow>
          (let final_answer = format_final_answer txt followup_questions in
           (Inr final_answer, w1\<lparr>messages := messages w1 @ [AIMessage final_answer]\<rparr>)))"

text \<open>
  The loop \<open>while iteration < 5\<close> of \<open>answer\<close> and the code after it.
  \<open>reason2\<close> is \<open>None\<close> as long as the variable is not bound.
\<close>

function gen_loop :: "env \<Rightarrow> str \<Rightarrow> evidence \<Rightarrow> nat \<Rightarrow> str option \<Rightarrow> world \<Rightarrow> str result \<times> world" where
  "gen_loop e refined_query retrieved_info iteration reason2 w =
     (if iteration < 5 then
        (case generate_answer e refined_query retrieved_info w of
           (Inl x, w1) \<Rightarrow> (Inl x, w1)
         | (Inr a, w1) \<Rightarrow>
             (case assess_relevance e refined_query a retrieved_info w1 of
                (Inl x, w2) \<Rightarrow> (Inl x, w2)
              | (Inr NotAPair, w2) \<Rightarrow>
                  (Inl (ValueError (S ''assess_relevance must return a tuple (bool, str).'')), w2)
              | (Inr (Verdict relevant r), w2) \<Rightarrow>
                  if relevant then finish e refined_query retrieved_info a w2
                  else gen_loop e refined_query retrieved_info (iteration + 1) (Some r) w2))
      else
        (case reason2 of
           None \<Rightarrow>
             (Inl (UnboundLocalError
                (S ''cannot access local variable 'reason2' where it is not associated with a value'')), w)
         | Some r \<Rightarrow> finish e refined_query retrieved_info (exhausted_msg r) w))"
  by pat_completeness auto
termination
  by (relation "measure (\<lambda>(e, q, i, iteration, r, w). 5 - iteration)") auto

declare gen_loop.simps [simp del]

text \<open>
  The body of the \<open>try\<close> of \<open>AlexupportAgent.answer\<close>.
  \<open>check_answerability\<close> always returns a pair, so the test of its shape never
  raises.
\<close>

definition answer_body :: "env \<Rightarrow> str \<Rightarrow> str \<Rightarrow> world \<Rightarrow> str result \<times> world" where
  "answer_body e user_query product w =
     (let w0 = w\<lparr>messages := messages w @ [HumanMessage user_query]\<rparr> in
      case refine_input e user_query w0 of
        (Inl x, w1) \<Rightarrow> (Inl x, w1)
      | (Inr refined_query, w1) \<Rightarrow>
          (case retrieve_information e refined_query product w1 of
             (Inl x, w2) \<Rightarrow> (Inl x, w2)
           | (Inr retrieved_info, w2) \<Rightarrow>
               (case check_answerability e refined_query retrieved_info w2 of
                  ((answerable, reason1), w3) \<Rightarrow>
                    if \<not> answerable
                    then finish e refined_query retrieved_info (unanswerable_msg reason1) w3
                    else gen_loop e refined_query retrieved_info 0 None w3)))"

text \<open>\<open>AlexupportAgent.answer\<close>: the body under its \<open>except Exception\<close>.\<close>

definition answer :: "env \<Rightarrow> str \<Rightarrow> str \<Rightarrow> world \<Rightarrow> str \<times> world" where
  "answer e user_query product w =
     (case answer_body e user_query product w of
        (Inr final_answer, w1) \<Rightarrow> (final_answer, w1)
      | (Inl x, w1) \<Rightarrow>
          (error_message x, w1\<lparr>messages := messages w1 @ [AIMessage (error_message x)]\<rparr>))"

section \<open>A sample environment for concrete runs\<close>

text \<open>
  An environment in which nothing fails: the model answers \<open>YES\<close>, the index is
  empty, the log can be written and the relevance agent accepts. Concrete runs change
  the collaborator they are about.
\<close>

definition sample_env :: env where
  "sample_env =
     \<lparr>um = (\<lambda>c. [c]),
      render = (\<lambda>ctx. S ''[]''),
      count_tokens = length,
      chat_model = (\<lambda>n m. Inr (S ''YES'')),
      embed_query = (\<lambda>n t. Inr []),
      embed_documents = (\<lambda>n ts. Inr []),
      log_write = (\<lambda>n. None),
      now = (\<lambda>n. S ''t''),
      query_points = (\<lambda>v p. Inr []),
      scroll = (\<lambda>off. Inr (ScrollResult [] None)),
      assess = (\<lambda>n q a ctx. Inr (Verdict True (S ''ok''))),
      refiner_system_prompt = [],
      answerable_system_prompt = [],
      answer_system_prompt = [],
      followup_system_prompt = []\<rparr>"

definition sample_world :: world where
  "sample_world =
     \<lparr>messages = [], chat_calls = 0, embed_calls = 0, log_attempts = 0, token_log = [],
      answer_calls = 0, relevance_calls = 0\<rparr>"

section \<open>Vocabulary of the claims\<close>

text \<open>
  A text begins with an upper-case ASCII word, whatever the case of its letters.
\<close>

definition begins_ci :: "str \<Rightarrow> str \<Rightarrow> bool" where
  "begins_ci word r = (map ascii_upper (take (length word) r) = word)"

text \<open>
  The invariant of the page loop of \<open>list_products\<close>: the products collected so
  far have distinct \<open>asin\<close> values, all of them recorded in \<open>seen\<close>.
\<close>

definition tidy :: "product list \<Rightarrow> str set \<Rightarrow> bool" where
  "tidy collected seen \<longleftrightarrow>
     distinct (map product_asin collected) \<and> set (map product_asin collected) \<subseteq> seen"

text \<open>
  The attempts of the generation loop, counted from 0 at the state \<open>w\<close> in which
  the loop starts. \<open>answer_request\<close> is what the Answer Generator sends to the chat
  model (the memory does not change during the loop). \<open>attempt_answer\<close> is the
  candidate answer of attempt \<open>j\<close>, if its generation succeeds, and
  \<open>attempt_verdict\<close> the verdict of the relevance agent on it, if it returns one.
  \<open>after_attempts w w' j\<close>: the state \<open>w'\<close> is \<open>w\<close> after \<open>j\<close>
  attempts, each of which called the Answer Generator, the chat model, the token log and
  the relevance agent once.
\<close>

definition answer_request :: "env \<Rightarrow> world \<Rightarrow> str \<Rightarrow> evidence \<Rightarrow> message list" where
  "answer_request e w q ctx =
     [SystemMessage (answer_system_prompt e),
      HumanMessage (answer_human_input e (messages w) q ctx)]"

definition attempt_answer :: "env \<Rightarrow> str \<Rightarrow> evidence \<Rightarrow> world \<Rightarrow> nat \<Rightarrow> str option" where
  "attempt_answer e q ctx w j =
     (case chat_model e (chat_calls w + j) (answer_request e w q ctx) of
        Inl x \<Rightarrow> None
      | Inr s \<Rightarrow>
          (case log_write e (log_attempts w + j) of
             Some x \<Rightarrow> None
           | None \<Rightarrow> Some (strip s)))"

definition attempt_verdict :: "env \<Rightarrow> str \<Rightarrow> evidence \<Rightarrow> world \<Rightarrow> nat \<Rightarrow> (bool \<times> str) option" where
  "attempt_verdict e q ctx w j =
     (case attempt_answer e q ctx w j of
        None \<Rightarrow> None
      | Some a \<Rightarrow>
          (case assess e (relevance_calls w + j) q a ctx of
             Inl x \<Rightarrow> None
           | Inr NotAPair \<Rightarrow> None
           | Inr (Verdict v rs) \<Rightarrow> Some (v, rs)))"

definition after_attempts :: "world \<Rightarrow> world \<Rightarrow> nat \<Rightarrow> bool" where
  "after_attempts w w' j \<longleftrightarrow>
     messages w' = messages w \<and>
     chat_calls w' = chat_calls w + j \<and>
     log_attempts w' = log_attempts w + j \<and>
     embed_calls w' = embed_calls w \<and>
     answer_calls w' = answer_calls w + j \<and>
     relevance_calls w' = relevance_calls w + j"

section \<open>Facts about the text functions\<close>

lemma rstrip_Cons_keep: "\<not> is_space c \<Longrightarrow> rstrip (c # cs) = c # rstrip cs"
  by (simp add: rstrip_def dropWhile_append)

lemma strip_Cons_keep: "\<not> is_space c \<Longrightarrow> strip (c # cs) = c # rstrip cs"
  by (simp add: strip_def lstrip_def rstrip_Cons_keep)

lemma upper_Cons: "upper u (c # cs) = upper_char u c @ upper u cs"
  by (simp add: upper_def)

lemma contains_iff: "contains s sub \<longleftrightarrow> (\<exists>ps ss. s = ps @ sub @ ss)"
proof (induction s)
  case Nil
  then show ?case by auto
next
  case (Cons c cs)
  show ?case
  proof
    assume "contains (c # cs) sub"
    then consider "prefix sub (c # cs)" | "contains cs sub" by auto
    then show "\<exists>ps ss. c # cs = ps @ sub @ ss"
    proof cases
      case 1
      then obtain ss where "c # cs = sub @ ss" by (auto simp: prefix_def)
      then have "c # cs = [] @ sub @ ss" by simp
      then show ?thesis by blast
    next
      case 2
      with Cons.IH obtain ps ss where "cs = ps @ sub @ ss" by blast
      then have "c # cs = (c # ps) @ sub @ ss" by simp
      then show ?thesis by blast
    qed
  next
    assume "\<exists>ps ss. c # cs = ps @ sub @ ss"
    then obtain ps ss where eq: "c # cs = ps @ sub @ ss" by blast
    show "contains (c # cs) sub"
    proof (cases ps)
      case Nil
      with eq have "prefix sub (c # cs)" by (simp add: prefix_def)
      then show ?thesis by simp
    next
      case (Cons p ps')
      with eq have "cs = ps' @ sub @ ss" by simp
      with Cons.IH have "contains cs sub" by blast
      then show ?thesis by simp
    qed
  qed
qed

section \<open>Claims about the formatting\<close>

text \<open>
  C3 (as stated, refuted): the formatted response does not start with the answer text.
  For the answer \<open>A\<close> and no follow-ups it starts with a line break and the
  indentation, and so it is not \<open>A\<close> followed by the label line either.
\<close>

theorem format_final_answer_not_prefixed:
  "\<not> prefix (S ''A'') (format_final_answer (S ''A'') []) \<and>
   format_final_answer (S ''A'') [] \<noteq>
     S ''A'' @ [10] @ S ''Here are some follow-up questions you might consider:'' @ [10]"
  by (simp add: format_final_answer_def indent_def)

text \<open>
  C3 (amended): for every answer text and every list of follow-ups, the formatted
  response is a line break and eight blanks, the answer text, then on the next line
  (indented by eight blanks) the label, then on the next line (indented) the follow-ups
  joined by \<open>; \<close>, and a closing line break with eight blanks. The answer text is
  in the response right after the first nine characters, and the label follows it.
\<close>

theorem format_final_answer_template:
  "format_final_answer a follow_ups =
     S ''\<newline>        '' @ a @
     S ''\<newline>        Here are some follow-up questions you might consider:\<newline>        '' @
     join (S ''; '') follow_ups @ S ''\<newline>        '' \<and>
   prefix a (drop 9 (format_final_answer a follow_ups)) \<and>
   contains (format_final_answer a follow_ups)
     (a @ S ''\<newline>        Here are some follow-up questions you might consider:'')"
proof -
  have eq: "format_final_answer a follow_ups =
     S ''\<newline>        '' @ a @
     S ''\<newline>        Here are some follow-up questions you might consider:\<newline>        '' @
     join (S ''; '') follow_ups @ S ''\<newline>        ''"
    by (simp add: format_final_answer_def indent_def)
  have pre: "prefix a (drop 9 (format_final_answer a follow_ups))"
    by (simp add: format_final_answer_def indent_def)
  have "format_final_answer a follow_ups =
     S ''\<newline>        '' @
     (a @ S ''\<newline>        Here are some follow-up questions you might consider:'') @
     (S ''\<newline>        '' @ join (S ''; '') follow_ups @ S ''\<newline>        '')"
    by (simp add: format_final_answer_def indent_def)
  then have "contains (format_final_answer a follow_ups)
     (a @ S ''\<newline>        Here are some follow-up questions you might consider:'')"
    unfolding contains_iff by blast
  with eq pre show ?thesis by blast
qed

section \<open>Facts about the Text Client\<close>

lemma generate_response_unfold:
  "generate_response e msgs w =
     (case chat_model e (chat_calls w) (map to_langchain msgs) of
        Inl x \<Rightarrow> (Inl x, w\<lparr>chat_calls := Suc (chat_calls w)\<rparr>)
      | Inr r \<Rightarrow>
          (case log_write e (log_attempts w) of
             Some x \<Rightarrow> (Inl x, w\<lparr>chat_calls := Suc (chat_calls w), log_attempts := Suc (log_attempts w)\<rparr>)
           | None \<Rightarrow>
               (Inr r, w\<lparr>chat_calls := Suc (chat_calls w), log_attempts := Suc (log_attempts w),
                  token_log := token_log w @
                    [now e (log_attempts w) @ S '' - response_generation: input='' @
                     str_nat (sum_list (map (\<lambda>m. count_tokens e (snd m)) msgs)) @
                     S '', output='' @ str_nat (count_tokens e r) @ [10]]\<rparr>)))"
  by (simp add: generate_response_def log_token_usage_def Let_def split: sum.splits option.splits)

lemma generate_embeddings_unfold:
  "generate_embeddings e texts w =
     (case (if length texts = 1
             then map_sum id Vector (embed_query e (embed_calls w) (hd texts))
             else map_sum id Vectors (embed_documents e (embed_calls w) texts)) of
        Inl x \<Rightarrow> (Inl x, w\<lparr>embed_calls := Suc (embed_calls w)\<rparr>)
      | Inr v \<Rightarrow>
          (case log_write e (log_attempts w) of
             Some x \<Rightarrow> (Inl x, w\<lparr>embed_calls := Suc (embed_calls w), log_attempts := Suc (log_attempts w)\<rparr>)
           | None \<Rightarrow>
               (Inr v, w\<lparr>embed_calls := Suc (embed_calls w), log_attempts := Suc (log_attempts w),
                  token_log := token_log w @
                    [now e (log_attempts w) @ S '' - embeddings_generation: input='' @
                     str_nat (sum_list (map (count_tokens e) texts)) @
                     S '', output='' @ str_nat 0 @ [10]]\<rparr>)))"
  by (simp add: generate_embeddings_def log_token_usage_def Let_def split: sum.splits option.splits)

section \<open>Claims about the Text Client\<close>

text \<open>
  C7 (as stated, refuted): a failure of the token log does reach the caller. The chat
  model has produced \<open>YES\<close> and the embedding model a vector, the write of the
  log fails, and neither \<open>generate_response\<close> nor \<open>generate_embeddings\<close>
  returns what was generated.
\<close>

theorem log_failure_loses_response:
  "chat_model sample_env 0 [HumanMessage (S ''hi'')] = Inr (S ''YES'') \<and>
   fst (generate_response (sample_env\<lparr>log_write := \<lambda>n. Some (ExternalError (S ''disk full''))\<rparr>)
          [(S ''user'', S ''hi'')] sample_world) \<noteq> Inr (S ''YES'') \<and>
   embed_query sample_env 0 (S ''hi'') = Inr [] \<and>
   fst (generate_embeddings (sample_env\<lparr>log_write := \<lambda>n. Some (ExternalError (S ''disk full''))\<rparr>)
          [S ''hi''] sample_world) \<noteq> Inr (Vector [])"
  by (simp add: generate_response_unfold generate_embeddings_unfold sample_env_def sample_world_def)

text \<open>
  C7 (amended): \<open>log_token_usage\<close> is called without any guard, so when the model
  (chat or embedding) has produced its result, the caller gets that result exactly when
  the write of the token log succeeds; when the write fails, the call raises the
  failure of the write instead of returning the result.
\<close>

theorem log_failure_reaches_caller:
  "(chat_model e (chat_calls w) (map to_langchain msgs) = Inr r \<longrightarrow>
      (\<forall>x. log_write e (log_attempts w) = Some x \<longrightarrow> fst (generate_response e msgs w) = Inl x) \<and>
      (log_write e (log_attempts w) = None \<longrightarrow> fst (generate_response e msgs w) = Inr r)) \<and>
   (embed_query e (embed_calls w) t = Inr v \<longrightarrow>
      (\<forall>x. log_write e (log_attempts w) = Some x \<longrightarrow> fst (generate_embeddings e [t] w) = Inl x) \<and>
      (log_write e (log_attempts w) = None \<longrightarrow> fst (generate_embeddings e [t] w) = Inr (Vector v))) \<and>
   (length ts \<noteq> 1 \<and> embed_documents e (embed_calls w) ts = Inr vs \<longrightarrow>
      (\<forall>x. log_write e (log_attempts w) = Some x \<longrightarrow> fst (generate_embeddings e ts w) = Inl x) \<and>
      (log_write e (log_attempts w) = None \<longrightarrow> fst (generate_embeddings e ts w) = Inr (Vectors vs)))"
  by (simp add: generate_response_unfold generate_embeddings_unfold)

theorem log_failure_reaches_caller_witness:
  "fst (generate_response (sample_env\<lparr>log_write := \<lambda>n. Some (ExternalError (S ''disk full''))\<rparr>)
          [(S ''user'', S ''hi'')] sample_world) = Inl (ExternalError (S ''disk full'')) \<and>
   fst (generate_response sample_env [(S ''user'', S ''hi'')] sample_world) = Inr (S ''YES'') \<and>
   fst (generate_embeddings (sample_env\<lparr>log_write := \<lambda>n. Some (ExternalError (S ''disk full''))\<rparr>)
          [S ''hi''] sample_world) = Inl (ExternalError (S ''disk full'')) \<and>
   fst (generate_embeddings sample_env [S ''hi''] sample_world) = Inr (Vector []) \<and>
   fst (generate_embeddings (sample_env\<lparr>log_write := \<lambda>n. Some (ExternalError (S ''disk full''))\<rparr>)
          [] sample_world) = Inl (ExternalError (S ''disk full'')) \<and>
   fst (generate_embeddings sample_env [] sample_world) = Inr (Vectors [])"
  using log_failure_reaches_caller [of "sample_env\<lparr>log_write := \<lambda>n. Some (ExternalError (S ''disk full''))\<rparr>"
      sample_world "[(S ''user'', S ''hi'')]" "S ''YES''" "S ''hi''" "[]" "[]" "[]"]
    log_failure_reaches_caller [of sample_env sample_world "[(S ''user'', S ''hi'')]" "S ''YES''" "S ''hi''" "[]" "[]" "[]"]
  by (simp add: sample_env_def sample_world_def)

section \<open>Facts about the answerability check\<close>

lemma ascii_upper_eq_letter:
  "ascii_upper c = k \<Longrightarrow> 65 \<le> k \<Longrightarrow> k \<le> 90 \<Longrightarrow> c < 128 \<and> \<not> is_space c"
  by (auto simp: ascii_upper_def is_space_def split: if_splits)

lemma upper_char_ascii: "c < 128 \<Longrightarrow> upper_char u c = [ascii_upper c]"
  by (simp add: upper_char_def)

lemma begins_ci_YES:
  assumes "begins_ci (S ''YES'') r"
  shows "prefix (S ''YES'') (upper u (strip r))"
proof -
  from assms obtain a b c rest where r: "r = a # b # c # rest"
    and abc: "ascii_upper a = 89" "ascii_upper b = 69" "ascii_upper c = 83"
    by (cases r; cases "tl r"; cases "tl (tl r)") (auto simp: begins_ci_def)
  from abc have ns: "a < 128 \<and> \<not> is_space a" "b < 128 \<and> \<not> is_space b" "c < 128 \<and> \<not> is_space c"
    by (auto dest!: ascii_upper_eq_letter)
  then have "strip r = a # b # c # rstrip rest"
    by (simp add: r strip_Cons_keep rstrip_Cons_keep)
  with ns abc show ?thesis
    by (simp add: upper_Cons upper_char_ascii)
qed

lemma begins_ci_NO:
  assumes "begins_ci (S ''NO'') r"
  shows "prefix (S ''NO'') (upper u (strip r)) \<and> \<not> prefix (S ''YES'') (upper u (strip r))"
proof -
  from assms obtain a b rest where r: "r = a # b # rest"
    and ab: "ascii_upper a = 78" "ascii_upper b = 79"
    by (cases r; cases "tl r") (auto simp: begins_ci_def)
  from ab have ns: "a < 128 \<and> \<not> is_space a" "b < 128 \<and> \<not> is_space b"
    by (auto dest!: ascii_upper_eq_letter)
  then have "strip r = a # b # rstrip rest"
    by (simp add: r strip_Cons_keep rstrip_Cons_keep)
  with ns ab show ?thesis
    by (simp add: upper_Cons upper_char_ascii)
qed

lemma check_answerability_unfold:
  assumes "retrieved_info \<noteq> []"
    and "generate_response e
           [(S ''system'', answerable_system_prompt e),
            (S ''user'', answerable_human_input e q retrieved_info)] w = (out, w1)"
  shows "check_answerability e q retrieved_info w =
     ((case out of
         Inl x \<Rightarrow> (False, S ''Error during answerability check: '' @ exn_str x)
       | Inr r \<Rightarrow>
           if prefix (S ''YES'') (upper (um e) (strip r))
           then (True, S ''The retrieved information is sufficient to answer the question.'')
           else if prefix (S ''NO'') (upper (um e) (strip r))
           then (False, S ''I don't  have relevant information in my data to answer your question.'')
           else (False, S ''Unexpected response from LLM: '' @ upper (um e) (strip r))), w1)"
  using assms
  by (simp add: check_answerability_def no_information_def Let_def split: sum.splits)

section \<open>Claims about the answerability check\<close>

text \<open>
  C2 (as stated, refuted): on empty evidence the reason returned is not the text
  \<open>insufficient information\<close>.
\<close>

theorem check_answerability_empty_reason:
  "snd (fst (check_answerability sample_env (S ''Is it waterproof?'') [] sample_world)) \<noteq>
     S ''insufficient information''"
  by (simp add: check_answerability_def no_information_def)

text \<open>
  C2 (amended): for every call of \<open>check_answerability\<close> with an empty evidence
  list, the verdict is false with the reason \<open>I don't  have relevant information in my
  data to answer your question.\<close>, and the world is left as it was: no call of the
  Text Client is made and nothing is logged.
\<close>

theorem check_answerability_empty:
  "check_answerability e q [] w =
     ((False, S ''I don't  have relevant information in my data to answer your question.''), w) \<and>
   chat_calls (snd (check_answerability e q [] w)) = chat_calls w \<and>
   token_log (snd (check_answerability e q [] w)) = token_log w"
  by (simp add: check_answerability_def no_information_def)

text \<open>
  C4 (as stated, refuted): the response \<open> yes\<close> does not begin with
  \<open>YES\<close> (it begins with a blank) and yet the verdict is true; and for the
  response \<open>maybe\<close> the reason does not contain the raw text, it quotes
  \<open>MAYBE\<close>.
\<close>

theorem check_answerability_not_raw:
  "\<not> begins_ci (S ''YES'') (S '' yes'') \<and>
   fst (fst (check_answerability (sample_env\<lparr>chat_model := \<lambda>n m. Inr (S '' yes'')\<rparr>)
               (S ''q'') [[S ''x'']] sample_world)) = True \<and>
   snd (fst (check_answerability (sample_env\<lparr>chat_model := \<lambda>n m. Inr (S ''maybe'')\<rparr>)
               (S ''q'') [[S ''x'']] sample_world)) = S ''Unexpected response from LLM: MAYBE'' \<and>
   \<not> contains
       (snd (fst (check_answerability (sample_env\<lparr>chat_model := \<lambda>n m. Inr (S ''maybe'')\<rparr>)
               (S ''q'') [[S ''x'']] sample_world)))
       (S ''maybe'')"
  by (simp add: begins_ci_def ascii_upper_def check_answerability_def generate_response_unfold
      sample_env_def sample_world_def Let_def strip_def lstrip_def rstrip_def is_space_def
      upper_def upper_char_def)

text \<open>
  C4 (amended): when the evidence is not empty, the response of the Text Client is
  stripped and upper-cased before it is decoded. A response that begins
  (case-insensitively) with \<open>YES\<close> gives the verdict true, one that begins with
  \<open>NO\<close> gives false; in general the verdict is true exactly when the stripped,
  upper-cased text begins with \<open>YES\<close>. When that text begins with neither word,
  the verdict is false and the reason is \<open>Unexpected response from LLM: \<close> followed
  by the stripped, upper-cased text (not the raw one). A failure of the Text Client call
  gives the verdict false with the reason \<open>Error during answerability check: \<close>
  followed by the cause; the check returns a verdict in every case.
\<close>

theorem check_answerability_decode:
  assumes "retrieved_info \<noteq> []"
    and "generate_response e
           [(S ''system'', answerable_system_prompt e),
            (S ''user'', answerable_human_input e q retrieved_info)] w = (out, w1)"
  shows "(\<forall>r. out = Inr r \<and> begins_ci (S ''YES'') r \<longrightarrow>
            fst (fst (check_answerability e q retrieved_info w)) = True) \<and>
         (\<forall>r. out = Inr r \<and> begins_ci (S ''NO'') r \<longrightarrow>
            fst (fst (check_answerability e q retrieved_info w)) = False) \<and>
         (\<forall>r. out = Inr r \<longrightarrow>
            fst (fst (check_answerability e q retrieved_info w)) =
              prefix (S ''YES'') (upper (um e) (strip r))) \<and>
         (\<forall>r. out = Inr r \<and> \<not> prefix (S ''YES'') (upper (um e) (strip r)) \<and>
               \<not> prefix (S ''NO'') (upper (um e) (strip r)) \<longrightarrow>
            fst (check_answerability e q retrieved_info w) =
              (False, S ''Unexpected response from LLM: '' @ upper (um e) (strip r))) \<and>
         (\<forall>x. out = Inl x \<longrightarrow>
            fst (check_answerability e q retrieved_info w) =
              (False, S ''Error during answerability check: '' @ exn_str x))"
proof -
  note u = check_answerability_unfold [OF assms]
  have yes: "\<forall>r. out = Inr r \<and> begins_ci (S ''YES'') r \<longrightarrow>
            fst (fst (check_answerability e q retrieved_info w)) = True"
    using begins_ci_YES [of _ "um e"] by (auto simp: u)
  have no: "\<forall>r. out = Inr r \<and> begins_ci (S ''NO'') r \<longrightarrow>
            fst (fst (check_answerability e q retrieved_info w)) = False"
    using begins_ci_NO [of _ "um e"] by (auto simp: u)
  have dec: "\<forall>r. out = Inr r \<longrightarrow>
            fst (fst (check_answerability e q retrieved_info w)) =
              prefix (S ''YES'') (upper (um e) (strip r))"
    by (auto simp: u)
  have other: "\<forall>r. out = Inr r \<and> \<not> prefix (S ''YES'') (upper (um e) (strip r)) \<and>
               \<not> prefix (S ''NO'') (upper (um e) (strip r)) \<longrightarrow>
            fst (check_answerability e q retrieved_info w) =
              (False, S ''Unexpected response from LLM: '' @ upper (um e) (strip r))"
    by (auto simp: u)
  have err: "\<forall>x. out = Inl x \<longrightarrow>
            fst (check_answerability e q retrieved_info w) =
              (False, S ''Error during answerability check: '' @ exn_str x)"
    by (auto simp: u)
  from yes no dec other err show ?thesis by blast
qed

theorem check_answerability_decode_witness:
  "fst (fst (check_answerability (sample_env\<lparr>chat_model := \<lambda>n m. Inr (S ''yes, it is'')\<rparr>)
               (S ''q'') [[S ''x'']] sample_world)) = True \<and>
   fst (fst (check_answerability (sample_env\<lparr>chat_model := \<lambda>n m. Inr (S ''No.'')\<rparr>)
               (S ''q'') [[S ''x'']] sample_world)) = False \<and>
   fst (check_answerability (sample_env\<lparr>chat_model := \<lambda>n m. Inr (S ''maybe'')\<rparr>)
               (S ''q'') [[S ''x'']] sample_world) =
     (False, S ''Unexpected response from LLM: MAYBE'') \<and>
   fst (check_answerability
          (sample_env\<lparr>chat_model := \<lambda>n m. Inl (ExternalError (S ''timeout''))\<rparr>)
               (S ''q'') [[S ''x'']] sample_world) =
     (False, S ''Error during answerability check: timeout'')"
proof -
  let ?g = "\<lambda>e. generate_response e
              [(S ''system'', answerable_system_prompt e),
               (S ''user'', answerable_human_input e (S ''q'') [[S ''x'']])] sample_world"
  let ?e1 = "sample_env\<lparr>chat_model := \<lambda>n m. Inr (S ''yes, it is'')\<rparr>"
  let ?e2 = "sample_env\<lparr>chat_model := \<lambda>n m. Inr (S ''No.'')\<rparr>"
  let ?e3 = "sample_env\<lparr>chat_model := \<lambda>n m. Inr (S ''maybe'')\<rparr>"
  let ?e4 = "sample_env\<lparr>chat_model := \<lambda>n m. Inl (ExternalError (S ''timeout''))\<rparr>"
  have ne: "[[S ''x'']] \<noteq> ([]::evidence)" by simp
  have g1: "?g ?e1 = (Inr (S ''yes, it is''), snd (?g ?e1))"
    by (simp add: generate_response_unfold sample_env_def sample_world_def)
  have g2: "?g ?e2 = (Inr (S ''No.''), snd (?g ?e2))"
    by (simp add: generate_response_unfold sample_env_def sample_world_def)
  have g3: "?g ?e3 = (Inr (S ''maybe''), snd (?g ?e3))"
    by (simp add: generate_response_unfold sample_env_def sample_world_def)
  have g4: "?g ?e4 = (Inl (ExternalError (S ''timeout'')), snd (?g ?e4))"
    by (simp add: generate_response_unfold sample_env_def sample_world_def)
  have c1: "fst (fst (check_answerability ?e1 (S ''q'') [[S ''x'']] sample_world)) = True"
    using check_answerability_decode [OF ne g1] by (simp add: begins_ci_def ascii_upper_def)
  have c2: "fst (fst (check_answerability ?e2 (S ''q'') [[S ''x'']] sample_world)) = False"
    using check_answerability_decode [OF ne g2] by (simp add: begins_ci_def ascii_upper_def)
  have c3: "fst (check_answerability ?e3 (S ''q'') [[S ''x'']] sample_world) =
     (False, S ''Unexpected response from LLM: MAYBE'')"
    using check_answerability_decode [OF ne g3]
    by (simp add: sample_env_def strip_def lstrip_def rstrip_def is_space_def
        upper_def upper_char_def ascii_upper_def)
  have c4: "fst (check_answerability ?e4 (S ''q'') [[S ''x'']] sample_world) =
     (False, S ''Error during answerability check: timeout'')"
    using check_answerability_decode [OF ne g4] by simp
  from c1 c2 c3 c4 show ?thesis by blast
qed

section \<open>Facts about splitting and trimming\<close>

lemma split_acc_not_Nil: "split_acc acc s \<noteq> []"
  by (induction s arbitrary: acc) auto

lemma join_Cons: "ys \<noteq> [] \<Longrightarrow> join sep (x # ys) = x @ sep @ join sep ys"
  by (cases ys) auto

lemma length_split_acc: "length (split_acc acc s) = Suc (count_list s 10)"
  by (induction s arbitrary: acc) auto

lemma join_split_acc: "join [10] (split_acc acc s) = acc @ s"
  by (induction s arbitrary: acc) (auto simp: join_Cons split_acc_not_Nil)

lemma split_acc_no_newline:
  "10 \<notin> set acc \<Longrightarrow> \<forall>p \<in> set (split_acc acc s). 10 \<notin> set p"
proof (induction s arbitrary: acc)
  case Nil
  then show ?case by simp
next
  case (Cons c s)
  show ?case
  proof (cases "c = 10")
    case True
    with Cons.prems Cons.IH [of "[]"] show ?thesis by simp
  next
    case False
    with Cons.prems Cons.IH [of "acc @ [c]"] show ?thesis by simp
  qed
qed

lemma lstrip_no_lead: "lstrip s = c # cs \<Longrightarrow> \<not> is_space c"
  unfolding lstrip_def by (metis dropWhile_eq_Cons_conv)

lemma strip_edges:
  "strip s = [] \<or> (\<not> is_space (hd (strip s)) \<and> \<not> is_space (last (strip s)))"
proof (cases "strip s = []")
  case True
  then show ?thesis by simp
next
  case False
  have h: "\<not> is_space (hd (strip s))"
    using False by (simp add: strip_def lstrip_def hd_dropWhile)
  have r: "rstrip s = [] \<or> \<not> is_space (last (rstrip s))"
    by (cases "dropWhile is_space (rev s)")
       (auto simp: rstrip_def dest: lstrip_no_lead [unfolded lstrip_def])
  have "strip s \<noteq> [] \<Longrightarrow> last (strip s) = last (rstrip s)"
    unfolding strip_def lstrip_def
    by (metis last_appendR takeWhile_dropWhile_id)
  with False r h show ?thesis
    by (auto simp: strip_def lstrip_def)
qed

section \<open>Claims about the follow-up generator\<close>

text \<open>
  C10: whenever the Text Client returns a response \<open>r\<close>,
  \<open>generate_follow_ups\<close> returns the pieces of \<open>r\<close> between its newlines,
  each one stripped. The pieces are those of \<open>split\<close>: joined by newlines they give
  \<open>r\<close> back and none contains a newline. There is one entry more than there are
  newlines in \<open>r\<close>, so at least one; every entry is either empty or has no white
  space at either end; blank lines stay as empty entries, and the empty response gives
  the list with the one empty text. Nothing is removed, merged or counted.
\<close>

theorem generate_follow_ups_split:
  assumes "generate_response e
             [(S ''system'', followup_system_prompt e),
              (S ''human'', followup_human_input e q ctx)] w = (Inr r, w1)"
  shows "generate_follow_ups e q ctx w = (Inr (map strip (split_nl r)), w1) \<and>
         join [10] (split_nl r) = r \<and>
         (\<forall>p \<in> set (split_nl r). 10 \<notin> set p) \<and>
         length (map strip (split_nl r)) = Suc (count_list r 10) \<and>
         1 \<le> length (map strip (split_nl r)) \<and>
         (\<forall>x \<in> set (map strip (split_nl r)).
            x = [] \<or> (\<not> is_space (hd x) \<and> \<not> is_space (last x))) \<and>
         (r = [] \<longrightarrow> map strip (split_nl r) = [[]])"
proof -
  have a: "generate_follow_ups e q ctx w = (Inr (map strip (split_nl r)), w1)"
    using assms by (simp add: generate_follow_ups_def)
  have b: "join [10] (split_nl r) = r"
    by (simp add: split_nl_def join_split_acc)
  have c: "\<forall>p \<in> set (split_nl r). 10 \<notin> set p"
    using split_acc_no_newline [of "[]"] by (auto simp: split_nl_def)
  have d: "length (map strip (split_nl r)) = Suc (count_list r 10)"
    by (simp add: split_nl_def length_split_acc)
  have f: "r = [] \<longrightarrow> map strip (split_nl r) = [[]]"
    by (simp add: split_nl_def strip_def lstrip_def rstrip_def)
  have g: "\<forall>x \<in> set (map strip (split_nl r)).
            x = [] \<or> (\<not> is_space (hd x) \<and> \<not> is_space (last x))"
    using strip_edges by auto
  from a b c d f g show ?thesis by simp
qed

theorem generate_follow_ups_split_witness:
  "fst (generate_follow_ups (sample_env\<lparr>chat_model := \<lambda>n m. Inr (S '' Is it light? \<newline>\<newline>Is it big?\<newline>'')\<rparr>)
          (S ''q'') [] sample_world) =
     Inr [S ''Is it light?'', [], S ''Is it big?'', []] \<and>
   fst (generate_follow_ups (sample_env\<lparr>chat_model := \<lambda>n m. Inr []\<rparr>) (S ''q'') [] sample_world) =
     Inr [[]]"
proof -
  let ?g = "\<lambda>e. generate_response e
              [(S ''system'', followup_system_prompt e),
               (S ''human'', followup_human_input e (S ''q'') [])] sample_world"
  let ?e1 = "sample_env\<lparr>chat_model := \<lambda>n m. Inr (S '' Is it light? \<newline>\<newline>Is it big?\<newline>'')\<rparr>"
  let ?e2 = "sample_env\<lparr>chat_model := \<lambda>n m. Inr []\<rparr>"
  have g1: "?g ?e1 = (Inr (S '' Is it light? \<newline>\<newline>Is it big?\<newline>''), snd (?g ?e1))"
    by (simp add: generate_response_unfold sample_env_def sample_world_def)
  have g2: "?g ?e2 = (Inr [], snd (?g ?e2))"
    by (simp add: generate_response_unfold sample_env_def sample_world_def)
  have c1: "fst (generate_follow_ups ?e1 (S ''q'') [] sample_world) =
     Inr [S ''Is it light?'', [], S ''Is it big?'', []]"
    using generate_follow_ups_split [OF g1]
    by (simp add: split_nl_def strip_def lstrip_def rstrip_def is_space_def)
  have c2: "fst (generate_follow_ups ?e2 (S ''q'') [] sample_world) = Inr [[]]"
    using generate_follow_ups_split [OF g2] by simp
  from c1 c2 show ?thesis by blast
qed

section \<open>Claims about retrieval\<close>

text \<open>
  C5: whenever the embedding of the query and the search of the index succeed,
  \<open>retrieve_information\<close> returns (and does not raise) the evidence items of exactly
  the matches whose score is at least 0.5, in the order of the index: item \<open>i\<close> of
  the result is the \<open>answers\<close> list of the \<open>i\<close>-th kept match followed by its
  \<open>review_snippets\<close> list, an absent field counting as the empty list. The kept
  matches are a subsequence of the matches, and when no match reaches 0.5 the result is
  the empty list.
\<close>

theorem retrieve_information_filter:
  assumes "generate_embeddings e [query] w = (Inr v, w1)"
    and "query_points e v product_id = Inr pts"
  shows "\<exists>kept.
           retrieve_information e query product_id w = (Inr (map evidence_item kept), w1) \<and>
           kept = filter (\<lambda>p. score p \<ge> 1 / 2) pts \<and>
           set kept = {p \<in> set pts. score p \<ge> 1 / 2} \<and>
           subseq kept pts \<and>
           (\<forall>i < length kept.
              map evidence_item kept ! i =
                (case answers (point_payload (kept ! i)) of None \<Rightarrow> [] | Some a \<Rightarrow> a) @
                (case review_snippets (point_payload (kept ! i)) of None \<Rightarrow> [] | Some s \<Rightarrow> s)) \<and>
           ((\<forall>p \<in> set pts. score p < 1 / 2) \<longrightarrow> kept = [])"
proof -
  let ?kept = "filter (\<lambda>p. score p \<ge> 1 / 2) pts"
  have a: "retrieve_information e query product_id w = (Inr (map evidence_item ?kept), w1)"
    using assms by (simp add: retrieve_information_def)
  have b: "set ?kept = {p \<in> set pts. score p \<ge> 1 / 2}" by auto
  have c: "subseq ?kept pts" by simp
  have d: "\<forall>i < length ?kept.
              map evidence_item ?kept ! i =
                (case answers (point_payload (?kept ! i)) of None \<Rightarrow> [] | Some a \<Rightarrow> a) @
                (case review_snippets (point_payload (?kept ! i)) of None \<Rightarrow> [] | Some s \<Rightarrow> s)"
    by (simp add: evidence_item_def payload_get_def)
  have f: "(\<forall>p \<in> set pts. score p < 1 / 2) \<longrightarrow> ?kept = []"
    by (auto simp: filter_empty_conv)
  from a b c d f show ?thesis by blast
qed

theorem retrieve_information_filter_witness:
  "fst (retrieve_information
          (sample_env\<lparr>query_points := \<lambda>v p. Inr
             [\<lparr>score = 9 / 10, point_payload = \<lparr>asin = Some (S ''B01''), productTitle = None,
                  answers = Some [S ''yes''], review_snippets = Some [S ''sturdy'']\<rparr>\<rparr>,
              \<lparr>score = 49 / 100, point_payload = \<lparr>asin = Some (S ''B01''), productTitle = None,
                  answers = Some [S ''no''], review_snippets = None\<rparr>\<rparr>,
              \<lparr>score = 1 / 2, point_payload = \<lparr>asin = Some (S ''B01''), productTitle = None,
                  answers = None, review_snippets = Some [S ''light'']\<rparr>\<rparr>]\<rparr>)
          (S ''q'') (S ''B01'') sample_world) =
     Inr [[S ''yes'', S ''sturdy''], [S ''light'']] \<and>
   fst (retrieve_information
          (sample_env\<lparr>query_points := \<lambda>v p. Inr
             [\<lparr>score = 49 / 100, point_payload = \<lparr>asin = Some (S ''B01''), productTitle = None,
                  answers = Some [S ''no''], review_snippets = None\<rparr>\<rparr>]\<rparr>)
          (S ''q'') (S ''B01'') sample_world) = Inr []"
proof -
  let ?p1 = "\<lparr>score = 9 / 10, point_payload = \<lparr>asin = Some (S ''B01''), productTitle = None,
                  answers = Some [S ''yes''], review_snippets = Some [S ''sturdy'']\<rparr>\<rparr>"
  let ?p2 = "\<lparr>score = 49 / 100, point_payload = \<lparr>asin = Some (S ''B01''), productTitle = None,
                  answers = Some [S ''no''], review_snippets = None\<rparr>\<rparr>"
  let ?p3 = "\<lparr>score = 1 / 2, point_payload = \<lparr>asin = Some (S ''B01''), productTitle = None,
                  answers = None, review_snippets = Some [S ''light'']\<rparr>\<rparr>"
  let ?e1 = "sample_env\<lparr>query_points := \<lambda>v p. Inr [?p1, ?p2, ?p3]\<rparr>"
  let ?e2 = "sample_env\<lparr>query_points := \<lambda>v p. Inr [?p2]\<rparr>"
  have g1: "generate_embeddings ?e1 [S ''q''] sample_world =
      (Inr (Vector []), snd (generate_embeddings ?e1 [S ''q''] sample_world))"
    by (simp add: generate_embeddings_unfold sample_env_def sample_world_def)
  have g2: "generate_embeddings ?e2 [S ''q''] sample_world =
      (Inr (Vector []), snd (generate_embeddings ?e2 [S ''q''] sample_world))"
    by (simp add: generate_embeddings_unfold sample_env_def sample_world_def)
  have q1: "query_points ?e1 (Vector []) (S ''B01'') = Inr [?p1, ?p2, ?p3]" by simp
  have q2: "query_points ?e2 (Vector []) (S ''B01'') = Inr [?p2]" by simp
  have c1: "fst (retrieve_information ?e1 (S ''q'') (S ''B01'') sample_world) =
     Inr [[S ''yes'', S ''sturdy''], [S ''light'']]"
    using retrieve_information_filter [OF g1 q1]
    by (auto simp: evidence_item_def payload_get_def)
  have c2: "fst (retrieve_information ?e2 (S ''q'') (S ''B01'') sample_world) = Inr []"
    using retrieve_information_filter [OF g2 q2] by auto
  from c1 c2 show ?thesis by blast
qed

section \<open>Facts about the product listing\<close>

lemma collect_point_tidy:
  "tidy (fst st) (snd st) \<Longrightarrow> tidy (fst (collect_point p st)) (snd (collect_point p st))"
  by (cases st) (auto simp: collect_point_def tidy_def Let_def split: option.splits)

lemma fold_collect_point_tidy:
  "tidy (fst st) (snd st) \<Longrightarrow>
   tidy (fst (fold collect_point ps st)) (snd (fold collect_point ps st))"
  by (induction ps arbitrary: st) (auto simp: collect_point_tidy)

lemma list_products_loop_tidy:
  assumes run: "list_products_loop e limit collected page_offset seen = Some y"
  shows "tidy collected seen \<longrightarrow> (\<forall>ps. y = Inr ps \<longrightarrow> distinct (map product_asin ps))"
proof (rule list_products_loop.raw_induct
    [where P = "\<lambda>e limit collected page_offset seen y.
       tidy collected seen \<longrightarrow> (\<forall>ps. y = Inr ps \<longrightarrow> distinct (map product_asin ps))",
     OF _ run])
  fix lp :: "env \<Rightarrow> int \<Rightarrow> product list \<Rightarrow> nat option \<Rightarrow> str set \<Rightarrow> (product list) result option"
  fix e limit collected page_offset seen y
  assume IH: "\<And>e' limit' collected' page_offset' seen' y'.
      lp e' limit' collected' page_offset' seen' = Some y' \<Longrightarrow>
      tidy collected' seen' \<longrightarrow> (\<forall>ps. y' = Inr ps \<longrightarrow> distinct (map product_asin ps))"
  assume body: "(if int (length collected) < limit
      then case scroll e page_offset of Inl x \<Rightarrow> Some (Inl x)
           | Inr resp \<Rightarrow>
               case decode_page resp of
               (points, next_offset) \<Rightarrow>
                 if points = [] then Some (Inr collected)
                 else case fold collect_point points (collected, seen) of
                      (collected', seen') \<Rightarrow>
                        if next_offset = None then Some (Inr collected')
                        else lp e limit collected' next_offset seen'
      else Some (Inr collected)) = Some y"
  show "tidy collected seen \<longrightarrow> (\<forall>ps. y = Inr ps \<longrightarrow> distinct (map product_asin ps))"
  proof (intro impI allI)
    fix ps
    assume t: "tidy collected seen" and y: "y = Inr ps"
    show "distinct (map product_asin ps)"
    proof (cases "int (length collected) < limit")
      case False
      with body y t show ?thesis by (simp add: tidy_def)
    next
      case True
      note lt = this
      show ?thesis
      proof (cases "scroll e page_offset")
        case (Inl x)
        with body lt y show ?thesis by simp
      next
        case (Inr resp)
        obtain points next_offset where d: "decode_page resp = (points, next_offset)"
          by (cases "decode_page resp")
        obtain c' s' where f: "fold collect_point points (collected, seen) = (c', s')"
          by (cases "fold collect_point points (collected, seen)")
        have t': "tidy c' s'"
          using fold_collect_point_tidy [of "(collected, seen)" points] t f by simp
        show ?thesis
        proof (cases "points = []")
          case True
          with body lt Inr d y t show ?thesis by (simp add: tidy_def)
        next
          case False
          note ne = this
          show ?thesis
          proof (cases "next_offset = None")
            case True
            with body lt Inr d f ne y t' show ?thesis by (simp add: tidy_def)
          next
            case False
            with body lt Inr d f ne have "lp e limit c' next_offset s' = Some y" by simp
            from IH [OF this] t' y show ?thesis by simp
          qed
        qed
      qed
    qed
  qed
qed

lemma list_products_distinct:
  assumes "list_products e limit = Some (Inr ps)"
  shows "distinct (map product_asin ps)"
  using list_products_loop_tidy [of e limit "[]" None "{}" "Inr ps"] assms
  by (simp add: list_products_def tidy_def)

section \<open>Claims about the product listing\<close>

text \<open>
  C6 (the code departs from the claim): the entries returned never share an
  \<open>asin\<close> (\<open>list_products_distinct\<close>), but the bound is only tested between
  pages. With the limit 1 and an index whose first page holds two products,
  \<open>list_products\<close> returns both of them: two entries, more than the limit.
\<close>

theorem list_products_over_limit:
  "list_products
     (sample_env\<lparr>scroll := \<lambda>off. Inr (ScrollResult
        [Some \<lparr>asin = Some (S ''B01''), productTitle = Some (S ''Kettle''),
               answers = None, review_snippets = None\<rparr>,
         Some \<lparr>asin = Some (S ''B02''), productTitle = None,
               answers = None, review_snippets = None\<rparr>] None)\<rparr>) 1 =
   Some (Inr [Product (S ''B01'') (S ''Kettle''), Product (S ''B02'') (S ''(untitled)'')]) \<and>
   int (length [Product (S ''B01'') (S ''Kettle''), Product (S ''B02'') (S ''(untitled)'')]) > 1"
  by (simp add: list_products_def list_products_loop.simps decode_page_def collect_point_def Let_def)

section \<open>Facts about the answer prompt\<close>

lemma rstrip_Cons_next: "\<not> is_space d \<Longrightarrow> rstrip (c # d # cs) = c # rstrip (d # cs)"
  by (simp add: rstrip_def dropWhile_append)

lemma rstrip_Nil: "rstrip [] = []"
  by (simp add: rstrip_def)

lemma rstrip_space: "is_space c \<Longrightarrow> rstrip [c] = []"
  by (simp add: rstrip_def)

text \<open>
  Whatever the history holds, the prompt of the Answer Generator opens with the label
  of the history prefix.
\<close>

lemma history_prefix_always:
  "prefix (S ''Here's the history of the current chat: ['')
     (answer_human_input e chat_history q ctx)"
  by (simp add: answer_human_input_def history_prefix_def memory_truth_def clean_string_def
      strip_def lstrip_def rstrip_Cons_next rstrip_Cons_keep is_space_def)

section \<open>Claims about the answer prompt\<close>

text \<open>
  C8 (the code departs from the claim): with an empty conversation history the prefix
  is not omitted. A chat model that echoes the human message shows the prompt that
  \<open>generate_answer\<close> sends for the question \<open>q\<close>, no evidence and no
  history: it opens with \<open>Here's the history of the current chat: [].\<close>
\<close>

theorem empty_history_prompt:
  "fst (generate_answer (sample_env\<lparr>chat_model := \<lambda>n m. Inr (content (last m))\<rparr>)
          (S ''q'') [] sample_world) =
     Inr (S ''Here's the history of the current chat: []. Based on the following information from real customer experiences and reviews, answer the following question using the available information. Question: q Available Information: [] Provide a helpful, accurate answer based on this information.'')"
  by (simp add: generate_answer_def generate_response_unfold sample_env_def sample_world_def
      answer_human_input_def history_prefix_def memory_truth_def clean_string_def
      strip_def lstrip_def rstrip_Cons_next rstrip_Cons_keep rstrip_Nil rstrip_space is_space_def)

section \<open>What each component leaves unchanged\<close>

lemma generate_response_frame:
  assumes "generate_response e msgs w = (r, w1)"
  shows "messages w1 = messages w \<and> answer_calls w1 = answer_calls w \<and>
         relevance_calls w1 = relevance_calls w"
proof (cases "chat_model e (chat_calls w) (map to_langchain msgs)")
  case (Inl x)
  with assms show ?thesis by (auto simp: generate_response_unfold)
next
  case (Inr v)
  with assms show ?thesis
    by (cases "log_write e (log_attempts w)") (auto simp: generate_response_unfold)
qed

lemma generate_embeddings_frame:
  assumes "generate_embeddings e texts w = (r, w1)"
  shows "messages w1 = messages w \<and> answer_calls w1 = answer_calls w \<and>
         relevance_calls w1 = relevance_calls w"
proof (cases "if length texts = 1
             then map_sum id Vector (embed_query e (embed_calls w) (hd texts))
             else map_sum id Vectors (embed_documents e (embed_calls w) texts)")
  case (Inl x)
  with assms show ?thesis by (auto simp: generate_embeddings_unfold)
next
  case (Inr v)
  with assms show ?thesis
    by (cases "log_write e (log_attempts w)") (auto simp: generate_embeddings_unfold)
qed

lemma refine_input_frame:
  assumes "refine_input e q w = (r, w1)"
  shows "messages w1 = messages w \<and> answer_calls w1 = answer_calls w \<and>
         relevance_calls w1 = relevance_calls w"
proof -
  obtain out w2 where g: "generate_response e
      [(S ''system'', refiner_system_prompt e), (S ''user'', refine_human_input q)] w = (out, w2)"
    by (cases "generate_response e
      [(S ''system'', refiner_system_prompt e), (S ''user'', refine_human_input q)] w")
  from assms g have "w1 = w2" by (cases out) (simp_all add: refine_input_def)
  with generate_response_frame [OF g] show ?thesis by simp
qed

lemma retrieve_information_frame:
  assumes "retrieve_information e q p w = (r, w1)"
  shows "messages w1 = messages w \<and> answer_calls w1 = answer_calls w \<and>
         relevance_calls w1 = relevance_calls w"
proof -
  obtain out w2 where g: "generate_embeddings e [q] w = (out, w2)"
    by (cases "generate_embeddings e [q] w")
  from assms g have "w1 = w2"
    by (cases out) (auto simp: retrieve_information_def split: sum.splits)
  with generate_embeddings_frame [OF g] show ?thesis by simp
qed

lemma check_answerability_frame:
  assumes "check_answerability e q info w = (r, w1)"
  shows "messages w1 = messages w \<and> answer_calls w1 = answer_calls w \<and>
         relevance_calls w1 = relevance_calls w"
proof (cases "info = []")
  case True
  with assms show ?thesis by (simp add: check_answerability_def)
next
  case False
  obtain out w2 where g: "generate_response e
      [(S ''system'', answerable_system_prompt e),
       (S ''user'', answerable_human_input e q info)] w = (out, w2)"
    by (cases "generate_response e
      [(S ''system'', answerable_system_prompt e),
       (S ''user'', answerable_human_input e q info)] w")
  from check_answerability_unfold [OF False g] assms have "w1 = w2" by simp
  with generate_response_frame [OF g] show ?thesis by simp
qed

lemma generate_follow_ups_frame:
  assumes "generate_follow_ups e q ctx w = (r, w1)"
  shows "messages w1 = messages w \<and> answer_calls w1 = answer_calls w \<and>
         relevance_calls w1 = relevance_calls w"
proof -
  obtain out w2 where g: "generate_response e
      [(S ''system'', followup_system_prompt e),
       (S ''human'', followup_human_input e q ctx)] w = (out, w2)"
    by (cases "generate_response e
      [(S ''system'', followup_system_prompt e),
       (S ''human'', followup_human_input e q ctx)] w")
  from assms g have "w1 = w2" by (cases out) (simp_all add: generate_follow_ups_def)
  with generate_response_frame [OF g] show ?thesis by simp
qed

lemma generate_answer_frame:
  assumes "generate_answer e q ctx w = (r, w1)"
  shows "messages w1 = messages w \<and> answer_calls w1 = Suc (answer_calls w) \<and>
         relevance_calls w1 = relevance_calls w"
proof -
  let ?w = "w\<lparr>answer_calls := Suc (answer_calls w)\<rparr>"
  obtain out w2 where g: "generate_response e
      [(S ''system'', answer_system_prompt e),
       (S ''human'', answer_human_input e (messages w) q ctx)] ?w = (out, w2)"
    by (cases "generate_response e
      [(S ''system'', answer_system_prompt e),
       (S ''human'', answer_human_input e (messages w) q ctx)] ?w")
  from assms g have "w1 = w2" by (cases out) (simp_all add: generate_answer_def)
  with generate_response_frame [OF g] show ?thesis by simp
qed

lemma assess_relevance_frame:
  assumes "assess_relevance e q a ctx w = (r, w1)"
  shows "messages w1 = messages w \<and> answer_calls w1 = answer_calls w \<and>
         relevance_calls w1 = Suc (relevance_calls w)"
  using assms by (auto simp: assess_relevance_def)

lemma finish_frame:
  assumes "finish e q ctx txt w = (r, w1)"
  shows "answer_calls w1 = answer_calls w \<and> relevance_calls w1 = relevance_calls w \<and>
         (case r of
            Inl x \<Rightarrow> messages w1 = messages w
          | Inr s \<Rightarrow> messages w1 = messages w @ [AIMessage s] \<and>
                     (\<exists>fups. s = format_final_answer txt fups))"
proof (cases "generate_follow_ups e q ctx w")
  case (Pair out w2)
  note fr = generate_follow_ups_frame [OF Pair]
  show ?thesis
  proof (cases out)
    case (Inl x)
    with assms Pair fr show ?thesis by (auto simp: finish_def)
  next
    case (Inr fups)
    with assms Pair fr show ?thesis by (auto simp: finish_def Let_def)
  qed
qed

section \<open>Facts about the generation loop\<close>

lemma gen_loop_unbound:
  "\<not> iteration < 5 \<Longrightarrow>
   gen_loop e q ctx iteration None w =
     (Inl (UnboundLocalError
        (S ''cannot access local variable 'reason2' where it is not associated with a value'')), w)"
  by (simp add: gen_loop.simps [of e q ctx iteration None w])

lemma gen_loop_exhausted:
  "\<not> iteration < 5 \<Longrightarrow>
   gen_loop e q ctx iteration (Some rs) w = finish e q ctx (exhausted_msg rs) w"
  by (simp add: gen_loop.simps [of e q ctx iteration "Some rs" w])

lemma gen_loop_generate_fails:
  "iteration < 5 \<Longrightarrow> generate_answer e q ctx w = (Inl x, w2) \<Longrightarrow>
   gen_loop e q ctx iteration reason2 w = (Inl x, w2)"
  by (simp add: gen_loop.simps [of e q ctx iteration reason2 w])

lemma gen_loop_assess_fails:
  "iteration < 5 \<Longrightarrow> generate_answer e q ctx w = (Inr a, w2) \<Longrightarrow>
   assess_relevance e q a ctx w2 = (Inl x, w3) \<Longrightarrow>
   gen_loop e q ctx iteration reason2 w = (Inl x, w3)"
  by (simp add: gen_loop.simps [of e q ctx iteration reason2 w])

lemma gen_loop_not_a_pair:
  "iteration < 5 \<Longrightarrow> generate_answer e q ctx w = (Inr a, w2) \<Longrightarrow>
   assess_relevance e q a ctx w2 = (Inr NotAPair, w3) \<Longrightarrow>
   gen_loop e q ctx iteration reason2 w =
     (Inl (ValueError (S ''assess_relevance must return a tuple (bool, str).'')), w3)"
  by (simp add: gen_loop.simps [of e q ctx iteration reason2 w])

lemma gen_loop_accept:
  "iteration < 5 \<Longrightarrow> generate_answer e q ctx w = (Inr a, w2) \<Longrightarrow>
   assess_relevance e q a ctx w2 = (Inr (Verdict True rs), w3) \<Longrightarrow>
   gen_loop e q ctx iteration reason2 w = finish e q ctx a w3"
  by (simp add: gen_loop.simps [of e q ctx iteration reason2 w])

lemma gen_loop_reject:
  "iteration < 5 \<Longrightarrow> generate_answer e q ctx w = (Inr a, w2) \<Longrightarrow>
   assess_relevance e q a ctx w2 = (Inr (Verdict False rs), w3) \<Longrightarrow>
   gen_loop e q ctx iteration reason2 w = gen_loop e q ctx (iteration + 1) (Some rs) w3"
  by (simp add: gen_loop.simps [of e q ctx iteration reason2 w])

text \<open>
  What one run of the loop does to the memory and to the two counters, whatever the
  collaborators do: an assistant message is appended exactly when a text is returned, and
  from iteration \<open>i\<close> on there are at most \<open>5 - i\<close> calls of each agent.
\<close>

lemma gen_loop_effect:
  "gen_loop e q ctx iteration reason2 w = (r, w1) \<Longrightarrow>
   (case r of
      Inl x \<Rightarrow> messages w1 = messages w
    | Inr s \<Rightarrow> messages w1 = messages w @ [AIMessage s]) \<and>
   answer_calls w1 \<le> answer_calls w + (5 - iteration) \<and>
   relevance_calls w1 \<le> relevance_calls w + (5 - iteration)"
proof (induction e q ctx iteration reason2 w rule: gen_loop.induct)
  case (1 e q ctx iteration reason2 w)
  show ?case
  proof (cases "iteration < 5")
    case False
    show ?thesis
    proof (cases reason2)
      case None
      with False "1.prems" show ?thesis by (auto simp: gen_loop_unbound)
    next
      case (Some rs)
      with False "1.prems" have "finish e q ctx (exhausted_msg rs) w = (r, w1)"
        by (simp add: gen_loop_exhausted)
      from finish_frame [OF this] show ?thesis by (cases r) auto
    qed
  next
    case True
    note lt = this
    obtain ga w2 where g: "generate_answer e q ctx w = (ga, w2)"
      by (cases "generate_answer e q ctx w")
    note gf = generate_answer_frame [OF g]
    show ?thesis
    proof (cases ga)
      case (Inl x)
      with lt g "1.prems" gf show ?thesis by (auto simp: gen_loop_generate_fails)
    next
      case (Inr a)
      note ga = this
      obtain ar w3 where as: "assess_relevance e q a ctx w2 = (ar, w3)"
        by (cases "assess_relevance e q a ctx w2")
      note af = assess_relevance_frame [OF as]
      show ?thesis
      proof (cases ar)
        case (Inl x)
        with lt g ga as "1.prems" gf af show ?thesis
          by (auto simp: gen_loop_assess_fails)
      next
        case (Inr v)
        note ar = this
        show ?thesis
        proof (cases v)
          case NotAPair
          with lt g ga as ar "1.prems" gf af show ?thesis
            by (auto simp: gen_loop_not_a_pair)
        next
          case (Verdict relevant rs)
          note v = this
          show ?thesis
          proof (cases relevant)
            case True
            with lt g ga as ar v "1.prems" have "finish e q ctx a w3 = (r, w1)"
              by (simp add: gen_loop_accept)
            from finish_frame [OF this] gf af lt show ?thesis by (cases r) auto
          next
            case False
            with lt g ga as ar v "1.prems"
            have run: "gen_loop e q ctx (iteration + 1) (Some rs) w3 = (r, w1)"
              by (simp add: gen_loop_reject)
            have "(case r of Inl x \<Rightarrow> messages w1 = messages w3
                   | Inr s \<Rightarrow> messages w1 = messages w3 @ [AIMessage s]) \<and>
                  answer_calls w1 \<le> answer_calls w3 + (5 - (iteration + 1)) \<and>
                  relevance_calls w1 \<le> relevance_calls w3 + (5 - (iteration + 1))"
              using "1.IH" [OF lt g [symmetric] ga as [symmetric] ar v _ run] False by simp
            with gf af lt show ?thesis by (cases r) auto
          qed
        qed
      qed
    qed
  qed
qed

section \<open>Facts about a whole turn\<close>

lemma answer_body_history:
  assumes "answer_body e q p w = (r, w1)"
  shows "case r of
           Inl x \<Rightarrow> messages w1 = messages w @ [HumanMessage q]
         | Inr s \<Rightarrow> messages w1 = messages w @ [HumanMessage q, AIMessage s]"
proof -
  let ?w0 = "w\<lparr>messages := messages w @ [HumanMessage q]\<rparr>"
  obtain rr w2 where rf: "refine_input e q ?w0 = (rr, w2)"
    by (cases "refine_input e q ?w0")
  from refine_input_frame [OF rf] have m2: "messages w2 = messages w @ [HumanMessage q]"
    by simp
  show ?thesis
  proof (cases rr)
    case (Inl x)
    with assms rf m2 show ?thesis by (auto simp: answer_body_def)
  next
    case (Inr rq)
    note rr = this
    obtain ri w3 where rt: "retrieve_information e rq p w2 = (ri, w3)"
      by (cases "retrieve_information e rq p w2")
    from retrieve_information_frame [OF rt] m2
    have m3: "messages w3 = messages w @ [HumanMessage q]" by simp
    show ?thesis
    proof (cases ri)
      case (Inl x)
      with assms rf rr rt m3 show ?thesis by (auto simp: answer_body_def)
    next
      case (Inr info)
      note ri = this
      obtain answerable reason1 w4
        where ca: "check_answerability e rq info w3 = ((answerable, reason1), w4)"
        by (cases "check_answerability e rq info w3") auto
      from check_answerability_frame [OF ca] m3
      have m4: "messages w4 = messages w @ [HumanMessage q]" by simp
      show ?thesis
      proof (cases answerable)
        case False
        with assms rf rr rt ri ca
        have "finish e rq info (unanswerable_msg reason1) w4 = (r, w1)"
          by (simp add: answer_body_def)
        from finish_frame [OF this] m4 show ?thesis by (cases r) auto
      next
        case True
        with assms rf rr rt ri ca
        have "gen_loop e rq info 0 None w4 = (r, w1)"
          by (simp add: answer_body_def)
        from gen_loop_effect [OF this] m4 show ?thesis by (cases r) auto
      qed
    qed
  qed
qed

section \<open>Claims about a whole turn\<close>

text \<open>
  C9: every call of \<open>answer\<close> returns a text, whatever the collaborators do, and
  the memory then holds the messages it held before, the user's message and one
  assistant message, which is the text returned. When something inside the turn raises
  (the body of the \<open>try\<close> ends with an exception \<open>x\<close>), the text returned is
  \<open>An error occurred while processing your request: \<close> followed by \<open>str(x)\<close>;
  this is so when the refinement fails, and when the retrieval fails (with the cause
  wrapped as \<open>Error retrieving information: ...\<close>).
\<close>

theorem answer_always_returns:
  "\<exists>r w1.
     answer e q p w = (r, w1) \<and>
     messages w1 = messages w @ [HumanMessage q, AIMessage r] \<and>
     (\<forall>x w2. answer_body e q p w = (Inl x, w2) \<longrightarrow>
        r = S ''An error occurred while processing your request: '' @ exn_str x) \<and>
     (\<forall>x w2. refine_input e q (w\<lparr>messages := messages w @ [HumanMessage q]\<rparr>) = (Inl x, w2) \<longrightarrow>
        r = S ''An error occurred while processing your request: '' @ exn_str x) \<and>
     (\<forall>rq w2 x w3.
        refine_input e q (w\<lparr>messages := messages w @ [HumanMessage q]\<rparr>) = (Inr rq, w2) \<and>
        generate_embeddings e [rq] w2 = (Inl x, w3) \<longrightarrow>
        r = S ''An error occurred while processing your request: Error retrieving information: '' @
            exn_str x)"
proof -
  obtain out w2 where b: "answer_body e q p w = (out, w2)"
    by (cases "answer_body e q p w")
  note h = answer_body_history [OF b]
  obtain r w1 where a: "answer e q p w = (r, w1)"
    by (cases "answer e q p w")
  have m: "messages w1 = messages w @ [HumanMessage q, AIMessage r]"
    using a b h by (cases out) (auto simp: answer_def)
  have e1: "\<forall>x w2. answer_body e q p w = (Inl x, w2) \<longrightarrow>
        r = S ''An error occurred while processing your request: '' @ exn_str x"
    using a by (auto simp: answer_def error_message_def)
  have e2: "\<forall>x w2. refine_input e q (w\<lparr>messages := messages w @ [HumanMessage q]\<rparr>) = (Inl x, w2) \<longrightarrow>
        r = S ''An error occurred while processing your request: '' @ exn_str x"
    using a by (auto simp: answer_def answer_body_def error_message_def)
  have e3: "\<forall>rq w2 x w3.
        refine_input e q (w\<lparr>messages := messages w @ [HumanMessage q]\<rparr>) = (Inr rq, w2) \<and>
        generate_embeddings e [rq] w2 = (Inl x, w3) \<longrightarrow>
        r = S ''An error occurred while processing your request: Error retrieving information: '' @
            exn_str x"
    using a
    by (auto simp: answer_def answer_body_def error_message_def retrieve_information_def
        retrieval_error_def)
  from a m e1 e2 e3 show ?thesis by blast
qed

theorem answer_always_returns_witness:
  "fst (answer (sample_env\<lparr>chat_model := \<lambda>n m. Inl (ExternalError (S ''timeout''))\<rparr>)
          (S ''Is it waterproof?'') (S ''B01'') sample_world) =
     S ''An error occurred while processing your request: timeout'' \<and>
   messages (snd (answer (sample_env\<lparr>chat_model := \<lambda>n m. Inl (ExternalError (S ''timeout''))\<rparr>)
          (S ''Is it waterproof?'') (S ''B01'') sample_world)) =
     [HumanMessage (S ''Is it waterproof?''),
      AIMessage (S ''An error occurred while processing your request: timeout'')]"
proof -
  let ?e = "sample_env\<lparr>chat_model := \<lambda>n m. Inl (ExternalError (S ''timeout''))\<rparr>"
  let ?q = "S ''Is it waterproof?''"
  let ?w0 = "sample_world\<lparr>messages := messages sample_world @ [HumanMessage ?q]\<rparr>"
  obtain r w1 where a: "answer ?e ?q (S ''B01'') sample_world = (r, w1)"
    and m: "messages w1 = messages sample_world @ [HumanMessage ?q, AIMessage r]"
    and f: "\<forall>x w2. refine_input ?e ?q ?w0 = (Inl x, w2) \<longrightarrow>
        r = S ''An error occurred while processing your request: '' @ exn_str x"
    using answer_always_returns [of ?e ?q "S ''B01''" sample_world] by blast
  have "refine_input ?e ?q ?w0 =
      (Inl (ExternalError (S ''timeout'')), snd (refine_input ?e ?q ?w0))"
    by (simp add: refine_input_def generate_response_unfold sample_env_def)
  with f have r: "r = S ''An error occurred while processing your request: timeout''"
    by fastforce
  from a m r show ?thesis by (simp add: sample_world_def)
qed

end
